theory Spec2Isabelle
  imports Main
begin

section \<open>NoteKeeper: the note client and its service worker\<close>

text \<open>
  A shallow embedding of \<^verbatim>\<open>assets/js/app.js\<close> (the \<^verbatim>\<open>app\<close> object), of the
  \<^verbatim>\<open>NoteKeeper\<close> class of \<^verbatim>\<open>api.js\<close> and of \<^verbatim>\<open>service-worker.js\<close>.
  The browser is the state: \<^verbatim>\<open>navigator.onLine\<close>, \<^verbatim>\<open>localStorage\<close>, the two DOM
  containers, and the remote service behind \<^verbatim>\<open>fetch\<close>. Every function takes the
  state and returns the new one; a \<^verbatim>\<open>throw\<close> is a value \<open>Inl e\<close>; an \<^verbatim>\<open>await\<close> is
  the call itself, since the code never runs two operations at once.
\<close>

subsection \<open>Notes, errors and messages\<close>

text \<open>
  The \<^verbatim>\<open>Note\<close> typedef of \<^verbatim>\<open>api.js\<close>: \<^verbatim>\<open>{ id: number, note: string }\<close>. The
  fields carry a prime since \<open>id\<close> is a constant of HOL and \<open>note\<close> a command.
\<close>

record Note =
  id' :: int
  note' :: string

text \<open>
  The errors of the platform that the code can meet: \<^verbatim>\<open>JSON.parse\<close> and
  \<^verbatim>\<open>response.json()\<close> throw a SyntaxError, a failed \<^verbatim>\<open>fetch\<close> and a property read
  on \<^verbatim>\<open>undefined\<close> a TypeError, \<^verbatim>\<open>removeChild\<close> a NotFoundError.
\<close>

datatype platform_error = SyntaxError | TypeError | NotFoundError

text \<open>
  The texts that \<^verbatim>\<open>app.js\<close> throws and logs, one constructor for each string literal
  (the literals are French and hold letters outside ASCII), by the line of the source:
  \<^item> \<open>Create_offline\<close>: line 113, the Error thrown by a create while offline;
  \<^item> \<open>Create_failed\<close>: line 118, the Error thrown when the remote gave no note;
  \<^item> \<open>Create_done\<close>: line 126;
  \<^item> \<open>Update_offline\<close>: line 153; \<open>Update_failed\<close>: line 156; \<open>Update_done\<close>: line 165;
  \<^item> \<open>Delete_offline\<close>: line 188; \<open>Delete_done\<close>: line 198;
  \<^item> \<open>Load_failed\<close>: line 290; \<open>Load_done\<close>: line 297;
  \<^item> \<open>Browser_text e\<close>: the \<^verbatim>\<open>message\<close> of a platform error, a text of the browser's.
\<close>

datatype message =
    Create_offline | Create_failed | Create_done
  | Update_offline | Update_failed | Update_done
  | Delete_offline | Delete_done
  | Load_failed | Load_done
  | Browser_text platform_error

datatype exn = Error message | Thrown platform_error

fun message_of :: "exn \<Rightarrow> message" where
  "message_of (Error m) = m"
| "message_of (Thrown e) = Browser_text e"

subsection \<open>JSON and local storage\<close>

text \<open>
  \<^verbatim>\<open>localStorage\<close> maps a key to a string. The code only hands these strings to
  \<^verbatim>\<open>JSON.parse\<close> and gets them from \<^verbatim>\<open>JSON.stringify\<close>, so a stored string is
  modelled by what \<^verbatim>\<open>JSON.parse\<close> makes of it: \<open>Malformed\<close> for a string that is not
  JSON (the parser throws), \<open>Json v\<close> for the JSON text of the value \<open>v\<close>. The values
  are the ones the data model has under the key: \<^verbatim>\<open>null\<close> and an array of notes.
  The JSON text of any other value (a number, a string, a boolean, an object) is not a
  store of the data model and has no counterpart here; nothing below speaks of what the
  code does on such a text.
  Storage is unbounded: \<^verbatim>\<open>setItem\<close> never fails for want of room, so a write that
  the code reaches is a write that is done.
\<close>

datatype json = JNull | JArray "Note list"

datatype stored = Malformed | Json json

text \<open>
  \<^verbatim>\<open>JSON.parse(s)\<close>, on what \<^verbatim>\<open>localStorage.getItem\<close> returned: \<^verbatim>\<open>null\<close> for an
  absent key, which \<^verbatim>\<open>JSON.parse\<close> turns into the string \<^verbatim>\<open>"null"\<close> and parses.
\<close>

fun JSON_parse :: "stored option \<Rightarrow> exn + json" where
  "JSON_parse None = Inr JNull"
| "JSON_parse (Some Malformed) = Inl (Thrown SyntaxError)"
| "JSON_parse (Some (Json v)) = Inr v"

text \<open>
  \<^verbatim>\<open>JSON.stringify(value)\<close> followed by \<^verbatim>\<open>setItem\<close>'s conversion to a string. The
  value is an array of notes, or \<^verbatim>\<open>undefined\<close> (\<open>None\<close>): then \<^verbatim>\<open>JSON.stringify\<close>
  returns \<^verbatim>\<open>undefined\<close> and the string \<^verbatim>\<open>"undefined"\<close> is stored, which is not JSON.
\<close>

fun JSON_stringify :: "Note list option \<Rightarrow> stored" where
  "JSON_stringify None = Malformed"
| "JSON_stringify (Some ns) = Json (JArray ns)"

subsection \<open>The remote service\<close>

text \<open>
  The requests \<^verbatim>\<open>NoteKeeper\<close> sends to \<^verbatim>\<open>BASE_URL\<close>, by method and body.
\<close>

datatype request = GET | POST string | PUT "Note list" | DELETE "int list"

text \<open>
  The object \<^verbatim>\<open>response.json()\<close> resolves to: the code reads its properties
  \<^verbatim>\<open>notes\<close> and \<^verbatim>\<open>note\<close>, each of which may be \<^verbatim>\<open>undefined\<close> (\<open>None\<close>).
\<close>

record data =
  data_notes :: "Note list option"
  data_note :: "Note option"

text \<open>
  A response: its \<^verbatim>\<open>ok\<close> flag and its body read as JSON (\<open>None\<close> when
  \<^verbatim>\<open>response.json()\<close> throws).
\<close>

record response =
  ok :: bool
  body :: "data option"

text \<open>
  The network and the server are not code of the repository: they are a parameter
  \<open>net\<close>, any function from a request and the server's state to the outcome of
  \<^verbatim>\<open>fetch\<close> (\<open>None\<close> when the promise is rejected) and the server's new state.
\<close>

type_synonym 's net = "request \<Rightarrow> 's \<Rightarrow> response option \<times> 's"

subsection \<open>The state of the page\<close>

text \<open>
  \<^item> \<open>onLine\<close>: \<^verbatim>\<open>navigator.onLine\<close>;
  \<^item> \<open>localStorage\<close>: the stored strings by key;
  \<^item> \<open>notes_container\<close>: the children of \<^verbatim>\<open>#notes-container\<close> in order, each a
    form element (a handle) with the note it was built from;
  \<^item> \<open>elements\<close>: the number of elements created so far, the next handle;
  \<^item> \<open>logs_container\<close>: the children of \<^verbatim>\<open>#logs-container\<close>, text and success flag;
  \<^item> \<open>server\<close>: the state of the remote service;
  \<^item> \<open>requests\<close>: the requests sent so far, in order.
\<close>

record 's world =
  onLine :: bool
  localStorage :: "string \<rightharpoonup> stored"
  notes_container :: "(nat \<times> Note) list"
  elements :: nat
  logs_container :: "(message \<times> bool) list"
  server :: 's
  requests :: "request list"

text \<open>\<^verbatim>\<open>fetch(BASE_URL, ...)\<close>: the request reaches the service and is recorded.\<close>

definition fetch :: "'s net \<Rightarrow> request \<Rightarrow> 's world \<Rightarrow> response option \<times> 's world" where
  "fetch net rq w =
     (case net rq (server w) of
        (r, s) \<Rightarrow> (r, w\<lparr>server := s, requests := requests w @ [rq]\<rparr>))"

subsection \<open>\<^verbatim>\<open>NoteKeeper\<close> (api.js)\<close>

text \<open>Lines 169-173: \<^verbatim>\<open>getAll\<close> returns \<^verbatim>\<open>data.notes\<close>.\<close>

definition NoteKeeper_getAll :: "'s net \<Rightarrow> 's world \<Rightarrow> (exn + Note list option) \<times> 's world" where
  "NoteKeeper_getAll net w =
     (case fetch net GET w of
        (None, w') \<Rightarrow> (Inl (Thrown TypeError), w')
      | (Some r, w') \<Rightarrow>
          (case body r of
             None \<Rightarrow> (Inl (Thrown SyntaxError), w')
           | Some d \<Rightarrow> (Inr (data_notes d), w')))"

text \<open>Lines 181-191: \<^verbatim>\<open>create\<close> posts the content and returns \<^verbatim>\<open>data.note\<close>.\<close>

definition NoteKeeper_create :: "'s net \<Rightarrow> string \<Rightarrow> 's world \<Rightarrow> (exn + Note option) \<times> 's world" where
  "NoteKeeper_create net content w =
     (case fetch net (POST content) w of
        (None, w') \<Rightarrow> (Inl (Thrown TypeError), w')
      | (Some r, w') \<Rightarrow>
          (case body r of
             None \<Rightarrow> (Inl (Thrown SyntaxError), w')
           | Some d \<Rightarrow> (Inr (data_note d), w')))"

text \<open>Lines 199-207: \<^verbatim>\<open>delete\<close> sends the ids and returns \<^verbatim>\<open>response.ok\<close>.\<close>

definition NoteKeeper_delete :: "'s net \<Rightarrow> int list \<Rightarrow> 's world \<Rightarrow> (exn + bool) \<times> 's world" where
  "NoteKeeper_delete net ids w =
     (case fetch net (DELETE ids) w of
        (None, w') \<Rightarrow> (Inl (Thrown TypeError), w')
      | (Some r, w') \<Rightarrow> (Inr (ok r), w'))"

text \<open>Lines 215-223: \<^verbatim>\<open>update\<close> sends the notes and returns \<^verbatim>\<open>response.ok\<close>.\<close>

definition NoteKeeper_update :: "'s net \<Rightarrow> Note list \<Rightarrow> 's world \<Rightarrow> (exn + bool) \<times> 's world" where
  "NoteKeeper_update net ns w =
     (case fetch net (PUT ns) w of
        (None, w') \<Rightarrow> (Inl (Thrown TypeError), w')
      | (Some r, w') \<Rightarrow> (Inr (ok r), w'))"

subsection \<open>\<^verbatim>\<open>app\<close> (app.js)\<close>

definition isOnline :: "'s world \<Rightarrow> bool" where
  "isOnline w = onLine w"

text \<open>
  Lines 60-62: \<^verbatim>\<open>JSON.parse(localStorage.getItem(key)) || []\<close>. Nothing catches what
  \<^verbatim>\<open>JSON.parse\<close> throws; \<^verbatim>\<open>null\<close> is falsy and gives the empty array, an array is
  truthy (also the empty one) and is returned.
\<close>

definition getFromLocalStorage :: "string \<Rightarrow> 's world \<Rightarrow> exn + Note list" where
  "getFromLocalStorage key w =
     (case JSON_parse (localStorage w key) of
        Inl e \<Rightarrow> Inl e
      | Inr JNull \<Rightarrow> Inr []
      | Inr (JArray ns) \<Rightarrow> Inr ns)"

text \<open>Lines 70-72.\<close>

definition setInLocalStorage :: "string \<Rightarrow> Note list option \<Rightarrow> 's world \<Rightarrow> 's world" where
  "setInLocalStorage key v w = w\<lparr>localStorage := (localStorage w)(key \<mapsto> JSON_stringify v)\<rparr>"

text \<open>Lines 80-96: one more entry at the end of the log (its date is left out).\<close>

definition logOperation :: "message \<Rightarrow> bool \<Rightarrow> 's world \<Rightarrow> 's world" where
  "logOperation operation isSuccess w =
     w\<lparr>logs_container := logs_container w @ [(operation, isSuccess)]\<rparr>"

text \<open>Lines 231-263: a new form element for the note, appended to the container.\<close>

definition addNoteToUI :: "Note \<Rightarrow> 's world \<Rightarrow> 's world" where
  "addNoteToUI n w =
     w\<lparr>notes_container := notes_container w @ [(elements w, n)], elements := Suc (elements w)\<rparr>"

text \<open>
  The \<^verbatim>\<open>catch\<close> blocks of the three handlers (lines 129-134, 166-169, 199-202): log
  the error's message as a failure.
\<close>

definition caught :: "exn \<Rightarrow> 's world \<Rightarrow> 's world" where
  "caught e w = logOperation (message_of e) False w"

text \<open>Lines 107-135. The result is the returned boolean.\<close>

definition handleCreateNote :: "'s net \<Rightarrow> string \<Rightarrow> 's world \<Rightarrow> bool \<times> 's world" where
  "handleCreateNote net noteContent w =
     (case getFromLocalStorage ''savedNotes'' w of
        Inl e \<Rightarrow> (False, caught e w)
      | Inr savedNotes \<Rightarrow>
          if \<not> isOnline w then (False, caught (Error Create_offline) w)
          else
            (case NoteKeeper_create net noteContent w of
               (Inl e, w1) \<Rightarrow> (False, caught e w1)
             | (Inr None, w1) \<Rightarrow> (False, caught (Error Create_failed) w1)
             | (Inr (Some newNote), w1) \<Rightarrow>
                 (True,
                  logOperation Create_done True
                    (addNoteToUI newNote
                      (setInLocalStorage ''savedNotes'' (Some (savedNotes @ [newNote])) w1)))))"

text \<open>Lines 147-170.\<close>

definition handleUpdateNote :: "'s net \<Rightarrow> Note \<Rightarrow> 's world \<Rightarrow> 's world" where
  "handleUpdateNote net n w =
     (case getFromLocalStorage ''savedNotes'' w of
        Inl e \<Rightarrow> caught e w
      | Inr savedNotes \<Rightarrow>
          if \<not> isOnline w then caught (Error Update_offline) w
          else
            (case NoteKeeper_update net [n] w of
               (Inl e, w1) \<Rightarrow> caught e w1
             | (Inr False, w1) \<Rightarrow> caught (Error Update_failed) w1
             | (Inr True, w1) \<Rightarrow>
                 logOperation Update_done True
                   (setInLocalStorage ''savedNotes''
                      (Some (map (\<lambda>savedNote. if id' savedNote = id' n then n else savedNote)
                               savedNotes))
                      w1)))"

text \<open>
  Lines 181-203. \<open>noteElement\<close> is the handle of the element to remove (\<open>None\<close> when
  the argument is missing); \<^verbatim>\<open>removeChild\<close> throws when it is not a child of the
  container, after the snapshot has been written. No call of \<^verbatim>\<open>NoteKeeper\<close> is made.
\<close>

definition handleDeleteNote :: "int \<Rightarrow> nat option \<Rightarrow> 's world \<Rightarrow> 's world" where
  "handleDeleteNote noteId noteElement w =
     (case getFromLocalStorage ''savedNotes'' w of
        Inl e \<Rightarrow> caught e w
      | Inr savedNotes \<Rightarrow>
          if \<not> isOnline w then caught (Error Delete_offline) w
          else
            (let w1 = setInLocalStorage ''savedNotes''
                        (Some (filter (\<lambda>n. id' n \<noteq> noteId) savedNotes)) w
             in case noteElement of
                  None \<Rightarrow> logOperation Delete_done True w1
                | Some el \<Rightarrow>
                    if el \<in> fst ` set (notes_container w1)
                    then logOperation Delete_done True
                           (w1\<lparr>notes_container :=
                                 filter (\<lambda>c. fst c \<noteq> el) (notes_container w1)\<rparr>)
                    else caught (Thrown NotFoundError) w1))"

text \<open>
  Lines 295-297, the end of \<^verbatim>\<open>loadNotes\<close>: \<^verbatim>\<open>notes.length ? notes : savedNotes\<close>,
  each note added to the page in order, and the log entry.
\<close>

definition showNotes :: "Note list \<Rightarrow> Note list \<Rightarrow> 's world \<Rightarrow> 's world" where
  "showNotes ns savedNotes w =
     logOperation Load_done True
       (fold addNoteToUI (if length ns \<noteq> 0 then ns else savedNotes) w)"

text \<open>
  Lines 280-298. The result is \<open>Inl e\<close> when the promise is rejected: the read of
  line 281 and the \<^verbatim>\<open>notes.length\<close> of line 295 stand outside the \<^verbatim>\<open>try\<close>. The
  \<^verbatim>\<open>catch\<close> of lines 288-292 logs the failure and returns.
\<close>

definition loadNotes :: "'s net \<Rightarrow> 's world \<Rightarrow> (exn + unit) \<times> 's world" where
  "loadNotes net w =
     (case getFromLocalStorage ''savedNotes'' w of
        Inl e \<Rightarrow> (Inl e, w)
      | Inr savedNotes \<Rightarrow>
          if isOnline w then
            (case NoteKeeper_getAll net w of
               (Inl e, w1) \<Rightarrow> (Inr (), logOperation Load_failed False w1)
             | (Inr None, w1) \<Rightarrow>
                 (Inl (Thrown TypeError), setInLocalStorage ''savedNotes'' None w1)
             | (Inr (Some ns), w1) \<Rightarrow>
                 (Inr (), showNotes ns savedNotes (setInLocalStorage ''savedNotes'' (Some ns) w1)))
          else (Inr (), showNotes [] savedNotes w))"

subsection \<open>The service worker (service-worker.js)\<close>

text \<open>
  The Cache API is the platform's. A cache region maps a URL to the stored response;
  \<^verbatim>\<open>caches\<close> holds the regions by name, in the order of their creation, which is the
  order of \<^verbatim>\<open>caches.keys()\<close>. The network of the worker gives, for a URL, the
  response (\<open>None\<close> for a network error).
\<close>

record resource =
  status_ok :: bool
  content :: string

type_synonym cache = "string \<rightharpoonup> resource"

type_synonym caches = "(string \<times> cache) list"

text \<open>Lines 2-15: the two constants of the file.\<close>

definition CACHE_NAME :: string where
  "CACHE_NAME = ''note-cache-j2''"

definition urlsToCache :: "string list" where
  "urlsToCache =
     [''/'', ''/index.html'', ''/assets/css/styles.css'', ''/assets/js/app.js'',
      ''/assets/js/api.js'', ''/assets/icons/icon-192x192.png'',
      ''/assets/icons/icon-512x512.png'', ''/assets/icons/favicon.png'', ''/manifest.json'']"

text \<open>
  \<^verbatim>\<open>caches.open(name)\<close>: the region of that name, created empty when there is none.
\<close>

definition caches_open :: "string \<Rightarrow> caches \<Rightarrow> cache \<times> caches" where
  "caches_open name cs =
     (case map_of cs name of
        Some c \<Rightarrow> (c, cs)
      | None \<Rightarrow> (Map.empty, cs @ [(name, Map.empty)]))"

text \<open>The region of a name after the cache object has changed.\<close>

definition set_region :: "string \<Rightarrow> cache \<Rightarrow> caches \<Rightarrow> caches" where
  "set_region name c cs = map (\<lambda>r. if fst r = name then (name, c) else r) cs"

text \<open>
  \<^verbatim>\<open>cache.addAll(urls)\<close>, as the Cache API defines it: every URL is fetched; a network
  error or a response whose status is not ok rejects the whole call with a TypeError
  and stores nothing; only when all responses are there are they put in the cache.
\<close>

fun fetch_all :: "(string \<Rightarrow> resource option) \<Rightarrow> string list \<Rightarrow> (string \<times> resource) list option" where
  "fetch_all net [] = Some []"
| "fetch_all net (u # us) =
     (case net u of
        None \<Rightarrow> None
      | Some r \<Rightarrow>
          if status_ok r
          then (case fetch_all net us of None \<Rightarrow> None | Some rs \<Rightarrow> Some ((u, r) # rs))
          else None)"

definition Cache_addAll :: "(string \<Rightarrow> resource option) \<Rightarrow> string list \<Rightarrow> cache \<Rightarrow> exn + cache" where
  "Cache_addAll net urls c =
     (case fetch_all net urls of
        None \<Rightarrow> Inl (Thrown TypeError)
      | Some rs \<Rightarrow> Inr (fold (\<lambda>p c'. c'(fst p \<mapsto> snd p)) rs c))"

text \<open>
  Lines 18-27, the listener of \<^verbatim>\<open>install\<close>, for a cache name and a list of URLs.
  The result is \<open>Inl e\<close> when the promise given to \<^verbatim>\<open>event.waitUntil\<close> is rejected:
  the installation fails.
\<close>

definition on_install :: "string \<Rightarrow> string list \<Rightarrow> (string \<Rightarrow> resource option) \<Rightarrow> caches \<Rightarrow> (exn + unit) \<times> caches" where
  "on_install name urls net cs =
     (case caches_open name cs of
        (c, cs1) \<Rightarrow>
          (case Cache_addAll net urls c of
             Inl e \<Rightarrow> (Inl e, cs1)
           | Inr c' \<Rightarrow> (Inr (), set_region name c' cs1)))"

definition install :: "(string \<Rightarrow> resource option) \<Rightarrow> caches \<Rightarrow> (exn + unit) \<times> caches" where
  "install = on_install CACHE_NAME urlsToCache"

text \<open>
  \<^verbatim>\<open>caches.keys()\<close> and \<^verbatim>\<open>caches.delete(name)\<close>, which tells whether the region
  was there.
\<close>

definition caches_keys :: "caches \<Rightarrow> string list" where
  "caches_keys cs = map fst cs"

definition caches_delete :: "string \<Rightarrow> caches \<Rightarrow> bool \<times> caches" where
  "caches_delete name cs = (name \<in> set (map fst cs), filter (\<lambda>r. fst r \<noteq> name) cs)"

text \<open>
  Lines 44-62, the listener of \<^verbatim>\<open>activate\<close>, for a cache name: each name of
  \<^verbatim>\<open>caches.keys()\<close> that is not the current one is deleted.
\<close>

definition on_activate :: "string \<Rightarrow> caches \<Rightarrow> caches" where
  "on_activate name cs =
     fold (\<lambda>cacheName cs'. if cacheName \<noteq> name then snd (caches_delete cacheName cs') else cs')
       (caches_keys cs) cs"

definition activate :: "caches \<Rightarrow> caches" where
  "activate = on_activate CACHE_NAME"

text \<open>The entries of the region of a name; a region that is not there has none.\<close>

definition entries :: "caches \<Rightarrow> string \<Rightarrow> cache" where
  "entries cs name = (case map_of cs name of None \<Rightarrow> Map.empty | Some c \<Rightarrow> c)"

subsection \<open>Concrete pages, services and networks\<close>

text \<open>
  A page with nothing on it yet: the connectivity, the string under
  \<^verbatim>\<open>savedNotes\<close> and the remote collection are given.
\<close>

definition page :: "bool \<Rightarrow> stored option \<Rightarrow> Note list \<Rightarrow> Note list world" where
  "page on item remote =
     \<lparr>onLine = on, localStorage = (\<lambda>k. None)(''savedNotes'' := item), notes_container = [],
      elements = 0, logs_container = [], server = remote, requests = []\<rparr>"

definition mk_note :: "int \<Rightarrow> string \<Rightarrow> Note" where
  "mk_note i s = \<lparr>id' = i, note' = s\<rparr>"

text \<open>Three notes, and a page whose snapshot and whose service hold them.\<close>

definition notes123 :: "Note list" where
  "notes123 = [mk_note 1 ''a'', mk_note 2 ''b'', mk_note 3 ''c'']"

text \<open>Three notes of which two have the same id.\<close>

definition notes122 :: "Note list" where
  "notes122 = [mk_note 1 ''a'', mk_note 2 ''b'', mk_note 2 ''c'']"

definition example_page :: "bool \<Rightarrow> Note list world" where
  "example_page on = page on (Some (Json (JArray notes123))) notes123"

text \<open>A network on which every \<^verbatim>\<open>fetch\<close> is rejected.\<close>

definition unreachable :: "Note list net" where
  "unreachable rq s = (None, s)"

text \<open>A service that answers every request with a status that is not ok.\<close>

definition refusing :: "Note list net" where
  "refusing rq s = (Some \<lparr>ok = False, body = None\<rparr>, s)"

text \<open>
  A service that keeps a collection of notes: \<^verbatim>\<open>GET\<close> lists it, \<^verbatim>\<open>PUT\<close> replaces
  the notes of the given ids, \<^verbatim>\<open>DELETE\<close> removes the given ids, \<^verbatim>\<open>POST\<close> adds a note
  under an id above all the others.
\<close>

fun service :: "Note list net" where
  "service GET s = (Some \<lparr>ok = True, body = Some \<lparr>data_notes = Some s, data_note = None\<rparr>\<rparr>, s)"
| "service (POST c) s =
     (let n = mk_note (fold max (map id' s) 0 + 1) c
      in (Some \<lparr>ok = True, body = Some \<lparr>data_notes = None, data_note = Some n\<rparr>\<rparr>, s @ [n]))"
| "service (PUT ns) s =
     (Some \<lparr>ok = True, body = None\<rparr>,
      map (\<lambda>m. case find (\<lambda>n. id' n = id' m) ns of None \<Rightarrow> m | Some n \<Rightarrow> n) s)"
| "service (DELETE ids) s =
     (Some \<lparr>ok = True, body = None\<rparr>, filter (\<lambda>m. id' m \<notin> set ids) s)"

text \<open>A network of the worker on which every URL but one is served.\<close>

definition all_but :: "string \<Rightarrow> string \<Rightarrow> resource option" where
  "all_but bad u = (if u = bad then None else Some \<lparr>status_ok = True, content = u\<rparr>)"

section \<open>Properties\<close>

subsection \<open>What the calls leave alone\<close>

lemmas app_defs = getFromLocalStorage_def setInLocalStorage_def logOperation_def addNoteToUI_def
  caught_def isOnline_def

lemma fetch_fields:
  "fst (fetch net rq w) = fst (net rq (server w))"
  "localStorage (snd (fetch net rq w)) = localStorage w"
  "onLine (snd (fetch net rq w)) = onLine w"
  "notes_container (snd (fetch net rq w)) = notes_container w"
  "elements (snd (fetch net rq w)) = elements w"
  "logs_container (snd (fetch net rq w)) = logs_container w"
  "requests (snd (fetch net rq w)) = requests w @ [rq]"
  "server (snd (fetch net rq w)) = snd (net rq (server w))"
  by (simp_all add: fetch_def split: prod.split)

lemma NoteKeeper_update_fields:
  "fst (NoteKeeper_update net ns w) =
     (case fst (net (PUT ns) (server w)) of None \<Rightarrow> Inl (Thrown TypeError) | Some r \<Rightarrow> Inr (ok r))"
  "snd (NoteKeeper_update net ns w) = snd (fetch net (PUT ns) w)"
  using fetch_fields(1) [of net "PUT ns" w]
  by (auto simp: NoteKeeper_update_def split: prod.splits option.splits)

lemma NoteKeeper_getAll_fields:
  "fst (NoteKeeper_getAll net w) =
     (case fst (net GET (server w)) of
        None \<Rightarrow> Inl (Thrown TypeError)
      | Some r \<Rightarrow> (case body r of None \<Rightarrow> Inl (Thrown SyntaxError) | Some d \<Rightarrow> Inr (data_notes d)))"
  "snd (NoteKeeper_getAll net w) = snd (fetch net GET w)"
  using fetch_fields(1) [of net GET w]
  by (auto simp: NoteKeeper_getAll_def split: prod.splits option.splits)

subsection \<open>Reading the local store\<close>

text \<open>What was written under a key is what is read back from it.\<close>

lemma getFromLocalStorage_setInLocalStorage:
  "getFromLocalStorage key (setInLocalStorage key (Some ns) w) = Inr ns"
  by (simp add: getFromLocalStorage_def setInLocalStorage_def)

text \<open>
  On the stores of this model (under the key nothing, a string that is not JSON, the
  text \<^verbatim>\<open>null\<close>, or the text of an array of notes) the read is as follows.
\<close>

lemma getFromLocalStorage_cases:
  "getFromLocalStorage key w =
     (case localStorage w key of
        None \<Rightarrow> Inr []
      | Some Malformed \<Rightarrow> Inl (Thrown SyntaxError)
      | Some (Json JNull) \<Rightarrow> Inr []
      | Some (Json (JArray ns)) \<Rightarrow> Inr ns)"
  by (simp add: getFromLocalStorage_def split: option.split stored.split json.split)

text \<open>
  C5 (as amended). \<^verbatim>\<open>getFromLocalStorage(key)\<close> returns the empty sequence when
  nothing is stored under the key; when the stored string is corrupt (not JSON) it
  does not return the empty sequence: the SyntaxError of \<^verbatim>\<open>JSON.parse\<close> leaves the
  function uncaught.
\<close>

theorem getFromLocalStorage_absent_or_corrupt:
  "(localStorage w key = None \<longrightarrow> getFromLocalStorage key w = Inr []) \<and>
   (localStorage w key = Some Malformed \<longrightarrow>
      getFromLocalStorage key w = Inl (Thrown SyntaxError))"
  by (simp add: getFromLocalStorage_def)

theorem getFromLocalStorage_absent_or_corrupt_witness:
  "localStorage (page True None []) ''savedNotes'' = None \<and>
   getFromLocalStorage ''savedNotes'' (page True None []) = Inr [] \<and>
   localStorage (page False (Some Malformed) []) ''savedNotes'' = Some Malformed \<and>
   getFromLocalStorage ''savedNotes'' (page False (Some Malformed) []) = Inl (Thrown SyntaxError)"
proof -
  have h1: "localStorage (page True None []) ''savedNotes'' = None"
    and h2: "localStorage (page False (Some Malformed) []) ''savedNotes'' = Some Malformed"
    by (simp_all add: page_def)
  show ?thesis
    using h1 h2
      getFromLocalStorage_absent_or_corrupt [of "page True None []" "''savedNotes''"]
      getFromLocalStorage_absent_or_corrupt [of "page False (Some Malformed) []" "''savedNotes''"]
    by blast
qed

text \<open>
  The claim as stated fails on a corrupt item: with a string that is not JSON under
  \<^verbatim>\<open>savedNotes\<close>, the call raises and yields no empty sequence.
\<close>

theorem getFromLocalStorage_corrupt:
  "getFromLocalStorage ''savedNotes'' (page True (Some Malformed) []) = Inl (Thrown SyntaxError) \<and>
   getFromLocalStorage ''savedNotes'' (page True (Some Malformed) []) \<noteq> Inr []"
  by (simp add: getFromLocalStorage_def page_def)

subsection \<open>Create\<close>

text \<open>
  C3. A create while offline returns \<^verbatim>\<open>false\<close> and changes nothing but the log,
  which gets one failure entry: the local store is as before, no note is added to the
  page, no request is sent and the service is not reached.
\<close>

theorem handleCreateNote_offline:
  assumes "\<not> onLine w"
  shows "handleCreateNote net noteContent w =
           (False,
            logOperation
              (case getFromLocalStorage ''savedNotes'' w of
                 Inl e \<Rightarrow> message_of e
               | Inr savedNotes \<Rightarrow> Create_offline)
              False w) \<and>
         localStorage (snd (handleCreateNote net noteContent w)) = localStorage w \<and>
         notes_container (snd (handleCreateNote net noteContent w)) = notes_container w \<and>
         requests (snd (handleCreateNote net noteContent w)) = requests w \<and>
         server (snd (handleCreateNote net noteContent w)) = server w"
  using assms
  by (cases "getFromLocalStorage ''savedNotes'' w")
     (simp_all add: handleCreateNote_def caught_def logOperation_def isOnline_def)

theorem handleCreateNote_offline_witness:
  "\<not> onLine (example_page False) \<and>
   handleCreateNote service ''d'' (example_page False) =
     (False, (example_page False)\<lparr>logs_container := [(Create_offline, False)]\<rparr>) \<and>
   localStorage (snd (handleCreateNote service ''d'' (example_page False))) =
     localStorage (example_page False) \<and>
   requests (snd (handleCreateNote service ''d'' (example_page False))) = []"
proof -
  have h: "\<not> onLine (example_page False)"
    by (simp add: example_page_def page_def)
  have "getFromLocalStorage ''savedNotes'' (example_page False) = Inr notes123"
    by (simp add: getFromLocalStorage_def example_page_def page_def)
  moreover have "logs_container (example_page False) = []" "requests (example_page False) = []"
    by (simp_all add: example_page_def page_def)
  ultimately show ?thesis
    using h handleCreateNote_offline [OF h, of service "''d''"]
    by (simp add: logOperation_def)
qed

subsection \<open>Update\<close>

text \<open>
  C6. When the update is not confirmed (the page is offline, the request is rejected,
  or the response's status is not ok), \<^verbatim>\<open>handleUpdateNote\<close> leaves the whole local
  store as it was.
\<close>

theorem handleUpdateNote_unconfirmed:
  assumes "\<not> onLine w \<or> fst (net (PUT [n]) (server w)) = None \<or>
           (\<exists>r. fst (net (PUT [n]) (server w)) = Some r \<and> \<not> ok r)"
  shows "localStorage (handleUpdateNote net n w) = localStorage w"
proof (cases "getFromLocalStorage ''savedNotes'' w")
  case (Inl e)
  then show ?thesis
    by (simp add: handleUpdateNote_def caught_def logOperation_def)
next
  case (Inr savedNotes)
  show ?thesis
  proof (cases "onLine w")
    case False
    with Inr show ?thesis
      by (simp add: handleUpdateNote_def caught_def logOperation_def isOnline_def)
  next
    case True
    with assms have "fst (NoteKeeper_update net [n] w) \<noteq> Inr True"
      by (auto simp: NoteKeeper_update_fields(1))
    moreover have "localStorage (snd (NoteKeeper_update net [n] w)) = localStorage w"
      by (simp add: NoteKeeper_update_fields(2) fetch_fields)
    ultimately show ?thesis
      using Inr True
      by (cases "NoteKeeper_update net [n] w")
         (auto simp: handleUpdateNote_def caught_def logOperation_def isOnline_def
               split: sum.splits bool.splits)
  qed
qed

theorem handleUpdateNote_unconfirmed_witness:
  "(\<not> onLine (example_page False) \<and>
    localStorage (handleUpdateNote service (mk_note 2 ''B'') (example_page False)) =
      localStorage (example_page False)) \<and>
   (fst (unreachable (PUT [mk_note 2 ''B'']) (server (example_page True))) = None \<and>
    localStorage (handleUpdateNote unreachable (mk_note 2 ''B'') (example_page True)) =
      localStorage (example_page True)) \<and>
   (fst (refusing (PUT [mk_note 2 ''B'']) (server (example_page True))) =
      Some \<lparr>ok = False, body = None\<rparr> \<and>
    \<not> ok \<lparr>ok = False, body = None\<rparr> \<and>
    localStorage (handleUpdateNote refusing (mk_note 2 ''B'') (example_page True)) =
      localStorage (example_page True))"
proof -
  have h1: "\<not> onLine (example_page False)"
    by (simp add: example_page_def page_def)
  have h2: "fst (unreachable (PUT [mk_note 2 ''B'']) (server (example_page True))) = None"
    by (simp add: unreachable_def)
  have h3: "fst (refusing (PUT [mk_note 2 ''B'']) (server (example_page True))) =
              Some \<lparr>ok = False, body = None\<rparr>"
    and h4: "\<not> ok \<lparr>ok = False, body = None\<rparr>"
    by (simp_all add: refusing_def)
  from h3 h4 have h5: "\<exists>r. fst (refusing (PUT [mk_note 2 ''B'']) (server (example_page True))) = Some r \<and> \<not> ok r"
    by blast
  show ?thesis
    using h1 h2 h3 h4
      handleUpdateNote_unconfirmed [of "example_page False" service "mk_note 2 ''B''"]
      handleUpdateNote_unconfirmed [of "example_page True" unreachable "mk_note 2 ''B''"]
      handleUpdateNote_unconfirmed [of "example_page True" refusing "mk_note 2 ''B''"] h5
    by blast
qed

text \<open>
  On a confirmed update every note of the snapshot with the id of \<open>n\<close> becomes
  \<open>n\<close>, and the others stay, each at its place.
\<close>

lemma handleUpdateNote_success:
  assumes "onLine w" "fst (net (PUT [n]) (server w)) = Some r" "ok r"
    and "getFromLocalStorage ''savedNotes'' w = Inr xs"
  shows "getFromLocalStorage ''savedNotes'' (handleUpdateNote net n w) =
           Inr (map (\<lambda>savedNote. if id' savedNote = id' n then n else savedNote) xs)"
proof -
  from assms(2,3) have "fst (NoteKeeper_update net [n] w) = Inr True"
    by (simp add: NoteKeeper_update_fields(1))
  then obtain w1 where "NoteKeeper_update net [n] w = (Inr True, w1)"
    by (cases "NoteKeeper_update net [n] w") simp
  with assms(1,4) show ?thesis
    by (simp add: handleUpdateNote_def isOnline_def)
       (simp add: app_defs)
qed

lemma map_replace_distinct:
  assumes "distinct (map f xs)" "i < length xs" "f (xs ! i) = a"
  shows "map (\<lambda>x. if f x = a then y else x) xs = xs[i := y]"
proof (rule nth_equalityI)
  show "length (map (\<lambda>x. if f x = a then y else x) xs) = length (xs[i := y])" by simp
next
  fix j assume "j < length (map (\<lambda>x. if f x = a then y else x) xs)"
  then have j: "j < length xs" by simp
  show "map (\<lambda>x. if f x = a then y else x) xs ! j = xs[i := y] ! j"
  proof (cases "j = i")
    case True
    with assms j show ?thesis by simp
  next
    case False
    with assms j have "f (xs ! j) \<noteq> a"
      by (metis distinct_conv_nth length_map nth_map)
    with False j show ?thesis by simp
  qed
qed

text \<open>
  On a confirmed update the handler reaches its write, with the mapped snapshot.
\<close>

lemma handleUpdateNote_writes:
  assumes "onLine w" "fst (net (PUT [n]) (server w)) = Some r" "ok r"
    and "getFromLocalStorage ''savedNotes'' w = Inr xs"
  shows "handleUpdateNote net n w =
           logOperation Update_done True
             (setInLocalStorage ''savedNotes''
                (Some (map (\<lambda>savedNote. if id' savedNote = id' n then n else savedNote) xs))
                (snd (fetch net (PUT [n]) w)))"
proof -
  from assms(2,3) have "fst (NoteKeeper_update net [n] w) = Inr True"
    by (simp add: NoteKeeper_update_fields(1))
  then have "NoteKeeper_update net [n] w = (Inr True, snd (fetch net (PUT [n]) w))"
    using NoteKeeper_update_fields(2) [of net "[n]" w]
    by (cases "NoteKeeper_update net [n] w") simp
  with assms(1,4) show ?thesis
    by (simp add: handleUpdateNote_def isOnline_def)
qed

text \<open>
  C2 (as amended). Online, with the update confirmed, on a snapshot that holds the id
  of \<open>n\<close>: the handler writes a snapshot of the same length in which every note
  with the id of \<open>n\<close> is \<open>n\<close> (there is at least one) and every other note is the
  one that stood at that place; with the write done, this is the snapshot read back.
  When the ids of the snapshot are distinct, exactly one position has the id of
  \<open>n\<close>, and the new snapshot is the old one with \<open>n\<close> at that position.
\<close>

theorem handleUpdateNote_replaces_matches:
  assumes "onLine w" "fst (net (PUT [n]) (server w)) = Some r" "ok r"
    and "getFromLocalStorage ''savedNotes'' w = Inr xs"
    and "id' n \<in> set (map id' xs)"
  shows "\<exists>ys. handleUpdateNote net n w =
                logOperation Update_done True
                  (setInLocalStorage ''savedNotes'' (Some ys) (snd (fetch net (PUT [n]) w))) \<and>
              getFromLocalStorage ''savedNotes'' (handleUpdateNote net n w) = Inr ys \<and>
              length ys = length xs \<and>
              (\<forall>j<length xs. ys ! j = (if id' (xs ! j) = id' n then n else xs ! j)) \<and>
              (\<exists>j<length xs. ys ! j = n) \<and>
              (distinct (map id' xs) \<longrightarrow>
                 (\<exists>i<length xs. id' (xs ! i) = id' n \<and>
                    (\<forall>j<length xs. id' (xs ! j) = id' n \<longrightarrow> j = i) \<and>
                    ys = xs[i := n]))"
proof -
  let ?ys = "map (\<lambda>savedNote. if id' savedNote = id' n then n else savedNote) xs"
  have a: "handleUpdateNote net n w =
             logOperation Update_done True
               (setInLocalStorage ''savedNotes'' (Some ?ys) (snd (fetch net (PUT [n]) w)))"
    using handleUpdateNote_writes [of w net n r xs] assms(1-4) by simp
  have b: "getFromLocalStorage ''savedNotes'' (handleUpdateNote net n w) = Inr ?ys"
    using handleUpdateNote_success [of w net n r xs] assms(1-4) by simp
  have c: "length ?ys = length xs"
    and d: "\<forall>j<length xs. ?ys ! j = (if id' (xs ! j) = id' n then n else xs ! j)"
    by simp_all
  from assms(5) obtain i where i: "i < length xs" "id' (xs ! i) = id' n"
    by (metis in_set_conv_nth length_map nth_map)
  then have e: "\<exists>j<length xs. ?ys ! j = n"
    by (intro exI [of _ i]) simp
  have f: "distinct (map id' xs) \<longrightarrow>
             (\<exists>i<length xs. id' (xs ! i) = id' n \<and>
                (\<forall>j<length xs. id' (xs ! j) = id' n \<longrightarrow> j = i) \<and> ?ys = xs[i := n])"
  proof
    assume dist: "distinct (map id' xs)"
    have "\<forall>j<length xs. id' (xs ! j) = id' n \<longrightarrow> j = i"
      using dist i by (metis distinct_conv_nth length_map nth_map)
    moreover have "?ys = xs[i := n]"
      using map_replace_distinct [OF dist, of i "id' n" n] i by simp
    ultimately show "\<exists>i<length xs. id' (xs ! i) = id' n \<and>
        (\<forall>j<length xs. id' (xs ! j) = id' n \<longrightarrow> j = i) \<and> ?ys = xs[i := n]"
      using i by blast
  qed
  from a b c d e f show ?thesis by blast
qed

theorem handleUpdateNote_replaces_matches_witness:
  "onLine (example_page True) \<and>
   fst (service (PUT [mk_note 2 ''B'']) (server (example_page True))) =
     Some \<lparr>ok = True, body = None\<rparr> \<and>
   ok \<lparr>ok = True, body = None\<rparr> \<and>
   getFromLocalStorage ''savedNotes'' (example_page True) = Inr notes123 \<and>
   id' (mk_note 2 ''B'') \<in> set (map id' notes123) \<and>
   distinct (map id' notes123) \<and>
   getFromLocalStorage ''savedNotes'' (handleUpdateNote service (mk_note 2 ''B'') (example_page True)) =
     Inr [mk_note 1 ''a'', mk_note 2 ''B'', mk_note 3 ''c'']"
proof -
  have h1: "onLine (example_page True)"
    by (simp add: example_page_def page_def)
  have h2: "fst (service (PUT [mk_note 2 ''B'']) (server (example_page True))) =
              Some \<lparr>ok = True, body = None\<rparr>"
    and h3: "ok \<lparr>ok = True, body = None\<rparr>"
    by simp_all
  have h4: "getFromLocalStorage ''savedNotes'' (example_page True) = Inr notes123"
    by (simp add: getFromLocalStorage_def example_page_def page_def)
  have h5: "id' (mk_note 2 ''B'') \<in> set (map id' notes123)"
    and h6: "distinct (map id' notes123)"
    by (simp_all add: notes123_def mk_note_def)
  from handleUpdateNote_replaces_matches
         [of "example_page True" service "mk_note 2 ''B''" "\<lparr>ok = True, body = None\<rparr>" notes123]
       h1 h2 h3 h4 h5 h6
  obtain ys i where r: "getFromLocalStorage ''savedNotes''
              (handleUpdateNote service (mk_note 2 ''B'') (example_page True)) = Inr ys"
    and i: "i < length notes123" "id' (notes123 ! i) = id' (mk_note 2 ''B'')"
    and ys: "ys = notes123[i := mk_note 2 ''B'']"
    by blast
  from i have "i = 1"
    by (auto simp: notes123_def mk_note_def less_Suc_eq numeral_3_eq_3)
  with r ys have "getFromLocalStorage ''savedNotes''
                 (handleUpdateNote service (mk_note 2 ''B'') (example_page True)) =
               Inr [mk_note 1 ''a'', mk_note 2 ''B'', mk_note 3 ''c'']"
    by (simp add: notes123_def)
  with h1 h2 h3 h4 h5 h6 show ?thesis by blast
qed

text \<open>
  The claim as stated fails on a snapshot in which an id is repeated: with the notes
  \<open>(1, a)\<close>, \<open>(2, b)\<close>, \<open>(2, c)\<close> and a confirmed update of \<open>(2, B)\<close>, two notes
  are replaced, and the result is the old snapshot with \<open>(2, B)\<close> put at one
  position for none of the three positions.
\<close>

theorem handleUpdateNote_duplicate_ids:
  "onLine (page True (Some (Json (JArray notes122))) notes122) \<and>
   fst (service (PUT [mk_note 2 ''B'']) (server (page True (Some (Json (JArray notes122))) notes122))) =
     Some \<lparr>ok = True, body = None\<rparr> \<and>
   getFromLocalStorage ''savedNotes'' (page True (Some (Json (JArray notes122))) notes122) =
     Inr [mk_note 1 ''a'', mk_note 2 ''b'', mk_note 2 ''c''] \<and>
   getFromLocalStorage ''savedNotes''
     (handleUpdateNote service (mk_note 2 ''B'') (page True (Some (Json (JArray notes122))) notes122)) =
     Inr [mk_note 1 ''a'', mk_note 2 ''B'', mk_note 2 ''B''] \<and>
   [mk_note 1 ''a'', mk_note 2 ''B'', mk_note 2 ''B''] \<noteq> notes122[0 := mk_note 2 ''B''] \<and>
   [mk_note 1 ''a'', mk_note 2 ''B'', mk_note 2 ''B''] \<noteq> notes122[1 := mk_note 2 ''B''] \<and>
   [mk_note 1 ''a'', mk_note 2 ''B'', mk_note 2 ''B''] \<noteq> notes122[2 := mk_note 2 ''B'']"
proof -
  let ?w = "page True (Some (Json (JArray notes122))) notes122"
  have h1: "onLine ?w"
    by (simp add: page_def)
  have h2: "fst (service (PUT [mk_note 2 ''B'']) (server ?w)) = Some \<lparr>ok = True, body = None\<rparr>"
    and h3: "ok \<lparr>ok = True, body = None\<rparr>"
    by simp_all
  have h4: "getFromLocalStorage ''savedNotes'' ?w = Inr notes122"
    by (simp add: getFromLocalStorage_def page_def)
  have "getFromLocalStorage ''savedNotes'' (handleUpdateNote service (mk_note 2 ''B'') ?w) =
          Inr (map (\<lambda>savedNote. if id' savedNote = id' (mk_note 2 ''B'') then mk_note 2 ''B''
                                else savedNote) notes122)"
    using handleUpdateNote_success [of ?w service "mk_note 2 ''B''" "\<lparr>ok = True, body = None\<rparr>" notes122]
      h1 h2 h3 h4 by simp
  then have "getFromLocalStorage ''savedNotes'' (handleUpdateNote service (mk_note 2 ''B'') ?w) =
          Inr [mk_note 1 ''a'', mk_note 2 ''B'', mk_note 2 ''B'']"
    by (simp add: notes122_def mk_note_def)
  with h1 h2 h4 show ?thesis
    by (simp add: notes122_def mk_note_def)
qed

subsection \<open>Delete\<close>

text \<open>
  One delete while online keeps the page online and filters the snapshot by the id;
  it sends nothing, whatever the arguments and the state.
\<close>

lemma handleDeleteNote_step:
  assumes "onLine w" "getFromLocalStorage ''savedNotes'' w = Inr xs"
  shows "onLine (handleDeleteNote noteId noteElement w)"
    and "getFromLocalStorage ''savedNotes'' (handleDeleteNote noteId noteElement w) =
           Inr (filter (\<lambda>n. id' n \<noteq> noteId) xs)"
  using assms
  by (simp_all add: handleDeleteNote_def Let_def app_defs split: option.split)

lemma handleDeleteNote_remote:
  "requests (handleDeleteNote noteId noteElement w) = requests w"
  "server (handleDeleteNote noteId noteElement w) = server w"
  by (simp_all add: handleDeleteNote_def Let_def app_defs split: option.split sum.split)

text \<open>
  C4. Online, deleting the ids of a list one after the other leaves in the snapshot
  exactly the notes whose id is not in the list, in their order. No remote call stands
  between the read and the write of the snapshot, so no outcome of the service can
  change this: for the ids 1 and 3 and the collection of the notes 1, 2 and 3, the
  result is the note 2.
\<close>

theorem handleDeleteNote_online:
  assumes "onLine w" "getFromLocalStorage ''savedNotes'' w = Inr xs"
  shows "getFromLocalStorage ''savedNotes''
           (fold (\<lambda>d. handleDeleteNote (fst d) (snd d)) ds w) =
         Inr (filter (\<lambda>n. id' n \<notin> set (map fst ds)) xs)"
  using assms
proof (induction ds arbitrary: w xs)
  case Nil
  then show ?case by simp
next
  case (Cons d ds)
  have "getFromLocalStorage ''savedNotes''
          (fold (\<lambda>d. handleDeleteNote (fst d) (snd d)) ds (handleDeleteNote (fst d) (snd d) w)) =
        Inr (filter (\<lambda>n. id' n \<notin> set (map fst ds)) (filter (\<lambda>n. id' n \<noteq> fst d) xs))"
    using Cons.prems by (intro Cons.IH handleDeleteNote_step)
  moreover have "filter (\<lambda>n. id' n \<notin> set (map fst ds)) (filter (\<lambda>n. id' n \<noteq> fst d) xs) =
                 filter (\<lambda>n. id' n \<notin> set (map fst (d # ds))) xs"
    by (auto intro: filter_cong)
  ultimately show ?case by simp
qed

theorem handleDeleteNote_online_witness:
  "onLine (example_page True) \<and>
   getFromLocalStorage ''savedNotes'' (example_page True) = Inr notes123 \<and>
   getFromLocalStorage ''savedNotes''
     (fold (\<lambda>d. handleDeleteNote (fst d) (snd d)) [(1, None), (3, None)] (example_page True)) =
   Inr [mk_note 2 ''b'']"
proof -
  have h1: "onLine (example_page True)"
    by (simp add: example_page_def page_def)
  have h2: "getFromLocalStorage ''savedNotes'' (example_page True) = Inr notes123"
    by (simp add: getFromLocalStorage_def example_page_def page_def)
  have "filter (\<lambda>n. id' n \<notin> set (map fst [(1::int, None::nat option), (3, None)])) notes123 =
        [mk_note 2 ''b'']"
    by (simp add: notes123_def mk_note_def)
  with h1 h2 handleDeleteNote_online [OF h1 h2, of "[(1, None), (3, None)]"]
  show ?thesis by simp
qed

text \<open>
  C8. \<^verbatim>\<open>handleDeleteNote\<close> sends no request and leaves the state of the service as
  it is, while online it takes the id out of the local snapshot. A call of
  \<^verbatim>\<open>NoteKeeper.delete\<close> would send one DELETE request; the handler makes none.
\<close>

theorem handleDeleteNote_no_request:
  "requests (handleDeleteNote noteId noteElement w) = requests w \<and>
   server (handleDeleteNote noteId noteElement w) = server w \<and>
   (onLine w \<and> getFromLocalStorage ''savedNotes'' w = Inr xs \<longrightarrow>
      getFromLocalStorage ''savedNotes'' (handleDeleteNote noteId noteElement w) =
        Inr (filter (\<lambda>n. id' n \<noteq> noteId) xs)) \<and>
   requests (snd (NoteKeeper_delete net ids w)) = requests w @ [DELETE ids]"
proof -
  have "requests (snd (NoteKeeper_delete net ids w)) = requests (snd (fetch net (DELETE ids) w))"
    by (simp add: NoteKeeper_delete_def split: prod.split option.split)
  then show ?thesis
    by (simp add: handleDeleteNote_remote handleDeleteNote_step(2) fetch_fields)
qed

theorem handleDeleteNote_no_request_witness:
  "requests (handleDeleteNote 1 None (example_page True)) = [] \<and>
   server (handleDeleteNote 1 None (example_page True)) = notes123 \<and>
   onLine (example_page True) \<and>
   getFromLocalStorage ''savedNotes'' (example_page True) = Inr notes123 \<and>
   getFromLocalStorage ''savedNotes'' (handleDeleteNote 1 None (example_page True)) =
     Inr [mk_note 2 ''b'', mk_note 3 ''c''] \<and>
   requests (snd (NoteKeeper_delete service [1] (example_page True))) = [DELETE [1]]"
proof -
  have h1: "onLine (example_page True)"
    and h3: "requests (example_page True) = []" "server (example_page True) = notes123"
    by (simp_all add: example_page_def page_def)
  have h2: "getFromLocalStorage ''savedNotes'' (example_page True) = Inr notes123"
    by (simp add: getFromLocalStorage_def example_page_def page_def)
  have "filter (\<lambda>n. id' n \<noteq> 1) notes123 = [mk_note 2 ''b'', mk_note 3 ''c'']"
    by (simp add: notes123_def mk_note_def)
  with h1 h2 h3
    handleDeleteNote_no_request [of 1 None "example_page True" notes123 service "[1]"]
  show ?thesis by simp
qed

subsection \<open>Load\<close>

text \<open>
  Adding notes to the page appends them in order and touches nothing else.
\<close>

lemma fold_addNoteToUI:
  "map snd (notes_container (fold addNoteToUI ns w)) = map snd (notes_container w) @ ns"
  "localStorage (fold addNoteToUI ns w) = localStorage w"
  "requests (fold addNoteToUI ns w) = requests w"
  "logs_container (fold addNoteToUI ns w) = logs_container w"
  by (induction ns arbitrary: w) (simp_all add: addNoteToUI_def)

lemma showNotes_fields:
  "map snd (notes_container (showNotes ns savedNotes w)) =
     map snd (notes_container w) @ (if ns = [] then savedNotes else ns)"
  "localStorage (showNotes ns savedNotes w) = localStorage w"
  by (simp_all add: showNotes_def logOperation_def fold_addNoteToUI)

text \<open>
  Offline, the load shows the snapshot and leaves the store alone.
\<close>

lemma loadNotes_offline:
  assumes "\<not> onLine w" "getFromLocalStorage ''savedNotes'' w = Inr xs"
  shows "fst (loadNotes net w) = Inr ()"
    and "map snd (notes_container (snd (loadNotes net w))) = map snd (notes_container w) @ xs"
    and "localStorage (snd (loadNotes net w)) = localStorage w"
  using assms by (simp_all add: loadNotes_def isOnline_def showNotes_fields)

text \<open>
  Online with the notes fetched, the store holds the fetched notes; the page shows
  them when there is at least one, and the notes of the prior snapshot when the
  fetched list is empty.
\<close>

lemma loadNotes_online:
  assumes "onLine w" "getFromLocalStorage ''savedNotes'' w = Inr xs"
    and "fst (NoteKeeper_getAll net w) = Inr (Some ns)"
  shows "fst (loadNotes net w) = Inr ()"
    and "map snd (notes_container (snd (loadNotes net w))) =
           map snd (notes_container w) @ (if ns = [] then xs else ns)"
    and "getFromLocalStorage ''savedNotes'' (snd (loadNotes net w)) = Inr ns"
proof -
  obtain w1 where w1: "NoteKeeper_getAll net w = (Inr (Some ns), w1)"
    using assms(3) by (cases "NoteKeeper_getAll net w") simp
  then have "w1 = snd (fetch net GET w)"
    using NoteKeeper_getAll_fields(2) [of net w] by simp
  then have c: "notes_container w1 = notes_container w"
    by (simp add: fetch_fields)
  from w1 assms(1,2) have l: "loadNotes net w =
      (Inr (), showNotes ns xs (setInLocalStorage ''savedNotes'' (Some ns) w1))"
    by (simp add: loadNotes_def isOnline_def)
  show "fst (loadNotes net w) = Inr ()"
    by (simp add: l)
  show "map snd (notes_container (snd (loadNotes net w))) =
          map snd (notes_container w) @ (if ns = [] then xs else ns)"
    by (simp add: l showNotes_fields c setInLocalStorage_def)
  show "getFromLocalStorage ''savedNotes'' (snd (loadNotes net w)) = Inr ns"
    by (simp add: l getFromLocalStorage_def showNotes_fields setInLocalStorage_def)
qed

text \<open>
  Online with \<^verbatim>\<open>getAll\<close> throwing, the load logs the failure and returns: the store
  is as before and nothing is added to the page.
\<close>

lemma loadNotes_fetch_throws:
  assumes "onLine w" "getFromLocalStorage ''savedNotes'' w = Inr xs"
    and "fst (NoteKeeper_getAll net w) = Inl e"
  shows "loadNotes net w = (Inr (), logOperation Load_failed False (snd (fetch net GET w)))"
    and "localStorage (snd (loadNotes net w)) = localStorage w"
    and "notes_container (snd (loadNotes net w)) = notes_container w"
proof -
  obtain w1 where w1: "NoteKeeper_getAll net w = (Inl e, w1)"
    using assms(3) by (cases "NoteKeeper_getAll net w") simp
  then have "w1 = snd (fetch net GET w)"
    using NoteKeeper_getAll_fields(2) [of net w] by simp
  with w1 assms(1,2) show l: "loadNotes net w =
      (Inr (), logOperation Load_failed False (snd (fetch net GET w)))"
    by (simp add: loadNotes_def isOnline_def)
  show "localStorage (snd (loadNotes net w)) = localStorage w"
    and "notes_container (snd (loadNotes net w)) = notes_container w"
    by (simp_all add: l logOperation_def fetch_fields)
qed

text \<open>
  C1, at a page that is online, holds the snapshot of three notes and cannot reach the
  service. The store is left untouched, as the claim says, but no note of the prior
  snapshot is shown: the page stays empty, where the same load offline shows the three
  notes.
\<close>

theorem loadNotes_fetch_throws_example:
  "loadNotes unreachable (example_page True) =
     (Inr (), (example_page True)\<lparr>logs_container := [(Load_failed, False)], requests := [GET]\<rparr>) \<and>
   getFromLocalStorage ''savedNotes'' (example_page True) = Inr notes123 \<and>
   localStorage (snd (loadNotes unreachable (example_page True))) =
     localStorage (example_page True) \<and>
   notes_container (snd (loadNotes unreachable (example_page True))) = [] \<and>
   map snd (notes_container (snd (loadNotes unreachable (example_page False)))) = notes123"
proof -
  have h1: "onLine (example_page True)" "\<not> onLine (example_page False)"
    and h0: "notes_container (example_page True) = []" "notes_container (example_page False) = []"
      "logs_container (example_page True) = []" "requests (example_page True) = []"
    by (simp_all add: example_page_def page_def)
  have h2: "getFromLocalStorage ''savedNotes'' (example_page True) = Inr notes123"
    "getFromLocalStorage ''savedNotes'' (example_page False) = Inr notes123"
    by (simp_all add: getFromLocalStorage_def example_page_def page_def)
  have h3: "fst (NoteKeeper_getAll unreachable (example_page True)) = Inl (Thrown TypeError)"
    by (simp add: NoteKeeper_getAll_fields unreachable_def)
  have "snd (fetch unreachable GET (example_page True)) = (example_page True)\<lparr>requests := [GET]\<rparr>"
    by (simp add: fetch_def unreachable_def example_page_def page_def)
  then have "loadNotes unreachable (example_page True) =
     (Inr (), (example_page True)\<lparr>logs_container := [(Load_failed, False)], requests := [GET]\<rparr>)"
    using loadNotes_fetch_throws(1) [OF h1(1) h2(1) h3] h0
    by (simp add: logOperation_def)
  then show ?thesis
    using h2 h0 loadNotes_offline(2) [OF h1(2) h2(2), of unreachable]
    by simp
qed

text \<open>
  C7, at a page that is online and holds the snapshot of three notes, with a service
  whose collection is empty. The load does not throw and fetches the empty list, which
  it stores; the claim has no note shown, but the page shows the three notes of the
  prior snapshot.
\<close>

theorem loadNotes_empty_remote_example:
  "fst (NoteKeeper_getAll service (page True (Some (Json (JArray notes123))) [])) = Inr (Some []) \<and>
   fst (loadNotes service (page True (Some (Json (JArray notes123))) [])) = Inr () \<and>
   map snd (notes_container (snd (loadNotes service (page True (Some (Json (JArray notes123))) [])))) =
     notes123 \<and>
   getFromLocalStorage ''savedNotes''
     (snd (loadNotes service (page True (Some (Json (JArray notes123))) []))) = Inr []"
proof -
  let ?w = "page True (Some (Json (JArray notes123))) []"
  have h1: "onLine ?w" and h0: "notes_container ?w = []"
    by (simp_all add: page_def)
  have h2: "getFromLocalStorage ''savedNotes'' ?w = Inr notes123"
    by (simp add: getFromLocalStorage_def page_def)
  have h3: "fst (NoteKeeper_getAll service ?w) = Inr (Some [])"
    by (simp add: NoteKeeper_getAll_fields page_def)
  show ?thesis
    using loadNotes_online [OF h1 h2 h3] h0 h3 by simp
qed

subsection \<open>The asset cache\<close>

text \<open>
  One failing URL makes \<^verbatim>\<open>addAll\<close> fail; when none fails, the responses come in the
  order of the URLs.
\<close>

lemma fetch_all_fails:
  assumes "u \<in> set urls" "net u = None \<or> (\<exists>r. net u = Some r \<and> \<not> status_ok r)"
  shows "fetch_all net urls = None"
  using assms
  by (induction urls) (auto split: option.splits)

lemma fetch_all_succeeds:
  "fetch_all net urls = Some rs \<Longrightarrow> map fst rs = urls"
  by (induction urls arbitrary: rs) (auto split: option.splits if_splits)

lemma entries_caches_open:
  "entries (snd (caches_open name cs)) = entries cs"
  by (rule ext) (auto simp: entries_def caches_open_def map_add_def split: option.splits)

text \<open>
  C9. For every cache name and list of URLs, when the fetch of one URL of the list
  fails (a network error or a status that is not ok), the installation fails and
  every region has the entries it had before: none of the responses that did arrive
  is stored. A region that was not there before is there afterwards, and is empty.
\<close>

theorem on_install_atomic:
  assumes "u \<in> set urls" "net u = None \<or> (\<exists>r. net u = Some r \<and> \<not> status_ok r)"
  shows "fst (on_install name urls net cs) = Inl (Thrown TypeError) \<and>
         entries (snd (on_install name urls net cs)) = entries cs \<and>
         (map_of cs name = None \<longrightarrow>
            map_of (snd (on_install name urls net cs)) name = Some Map.empty)"
proof -
  have "Cache_addAll net urls c = Inl (Thrown TypeError)" for c
    using fetch_all_fails [of u urls net] assms by (simp add: Cache_addAll_def)
  then have i: "on_install name urls net cs = (Inl (Thrown TypeError), snd (caches_open name cs))"
    by (simp add: on_install_def split: prod.split)
  have "map_of cs name = None \<Longrightarrow> map_of (snd (caches_open name cs)) name = Some Map.empty"
    by (simp add: caches_open_def map_add_def)
  then show ?thesis
    by (simp add: i entries_caches_open)
qed

theorem on_install_atomic_witness:
  "''/index.html'' \<in> set urlsToCache \<and>
   all_but ''/index.html'' ''/index.html'' = None \<and>
   fst (install (all_but ''/index.html'') []) = Inl (Thrown TypeError) \<and>
   entries (snd (install (all_but ''/index.html'') [])) = entries [] \<and>
   map_of (snd (install (all_but ''/index.html'') [])) CACHE_NAME = Some Map.empty \<and>
   ''B'' \<in> set [''A'', ''B'', ''C''] \<and>
   all_but ''B'' ''B'' = None \<and>
   on_install ''v2'' [''A'', ''B'', ''C''] (all_but ''B'') [] =
     (Inl (Thrown TypeError), [(''v2'', Map.empty)])"
proof -
  have h1: "''/index.html'' \<in> set urlsToCache" and h2: "all_but ''/index.html'' ''/index.html'' = None"
    and h3: "''B'' \<in> set [''A'', ''B'', ''C'']" and h4: "all_but ''B'' ''B'' = None"
    by (simp_all add: urlsToCache_def all_but_def)
  have a: "fst (install (all_but ''/index.html'') []) = Inl (Thrown TypeError) \<and>
           entries (snd (install (all_but ''/index.html'') [])) = entries [] \<and>
           map_of (snd (install (all_but ''/index.html'') [])) CACHE_NAME = Some Map.empty"
    using on_install_atomic [of "''/index.html''" urlsToCache "all_but ''/index.html''" CACHE_NAME "[]"] h1 h2
    by (simp add: install_def)
  have b: "fst (on_install ''v2'' [''A'', ''B'', ''C''] (all_but ''B'') []) = Inl (Thrown TypeError)"
    using on_install_atomic [of "''B''" "[''A'', ''B'', ''C'']" "all_but ''B''" "''v2''" "[]"] h3 h4
    by simp
  have "snd (on_install ''v2'' [''A'', ''B'', ''C''] (all_but ''B'') []) = [(''v2'', Map.empty)]"
    by (simp add: on_install_def caches_open_def Cache_addAll_def all_but_def)
  with b have "on_install ''v2'' [''A'', ''B'', ''C''] (all_but ''B'') [] =
     (Inl (Thrown TypeError), [(''v2'', Map.empty)])"
    by (simp add: prod_eq_iff)
  with a h1 h2 h3 h4 show ?thesis by blast
qed

text \<open>
  When every fetch succeeds, the installation succeeds and the new region holds the
  URLs of the list.
\<close>

lemma map_of_set_region:
  "map_of (set_region name c cs) name = (if name \<in> fst ` set cs then Some c else None)"
  by (induction cs) (auto simp: set_region_def)

lemma install_succeeds:
  assumes "fetch_all net urls = Some rs" "map_of cs name = None"
  shows "fst (on_install name urls net cs) = Inr ()"
    and "dom (entries (snd (on_install name urls net cs)) name) = set urls"
proof -
  have d: "dom (fold (\<lambda>p c'. c'(fst p \<mapsto> snd p)) rs c) = dom c \<union> set (map fst rs)" for c :: cache
    by (induction rs arbitrary: c) auto
  from assms show "fst (on_install name urls net cs) = Inr ()"
    by (simp add: on_install_def caches_open_def Cache_addAll_def)
  from assms show "dom (entries (snd (on_install name urls net cs)) name) = set urls"
    by (simp add: on_install_def caches_open_def Cache_addAll_def entries_def d
          fetch_all_succeeds map_of_set_region)
qed

text \<open>
  Deleting the names of a list that are not the current one keeps the regions of the
  current name and those whose name is not in the list.
\<close>

lemma fold_caches_delete:
  "fold (\<lambda>cacheName cs'. if cacheName \<noteq> name then snd (caches_delete cacheName cs') else cs') ks cs =
   filter (\<lambda>r. fst r = name \<or> fst r \<notin> set ks) cs"
proof (induction ks arbitrary: cs)
  case Nil
  then show ?case by simp
next
  case (Cons k ks)
  then show ?case
    by (auto simp: caches_delete_def intro: filter_cong)
qed

text \<open>
  C10. The activation keeps exactly the regions whose name is the current one, with
  their entries, and deletes all the others: of a region \<^verbatim>\<open>v1\<close> and the current
  one, only \<^verbatim>\<open>v1\<close> is deleted.
\<close>

theorem activate_keeps_current:
  "on_activate name cs = filter (\<lambda>r. fst r = name) cs \<and>
   activate cs = filter (\<lambda>r. fst r = CACHE_NAME) cs \<and>
   activate [(''v1'', c1), (CACHE_NAME, c2)] = [(CACHE_NAME, c2)]"
proof -
  have a: "on_activate n cs' = filter (\<lambda>r. fst r = n) cs'" for n and cs' :: caches
    unfolding on_activate_def caches_keys_def fold_caches_delete
    by (rule filter_cong) auto
  have "''v1'' \<noteq> CACHE_NAME"
    by (simp add: CACHE_NAME_def)
  then show ?thesis
    by (simp add: a activate_def)
qed

end
